theory Spec2Isabelle
  imports Complex_Main
begin

section \<open>Bars, orders and the strategy's decision\<close>

text \<open>
  The program (\<^verbatim>\<open>FiveBar.py\<close>) fetches OHLCV bars, feeds them to a
  backtesting engine and plugs two classes of its own into that engine:
  \<^verbatim>\<open>FiveBarStrategy\<close> and \<^verbatim>\<open>EquityCurveAnalyzer\<close>. Prices are Python
  floats; they are modelled as reals (the program only subtracts and compares
  them). A bar's time is the epoch second the feed delivers.
\<close>

record bar =
  b_datetime :: int
  b_open :: real
  b_high :: real
  b_low :: real
  b_close :: real
  b_volume :: real

text \<open>The three instructions the strategy can give: \<^verbatim>\<open>self.buy()\<close>,
  \<^verbatim>\<open>self.sell()\<close> and \<^verbatim>\<open>self.close()\<close>.\<close>

datatype order = Buy | Sell | Close

text \<open>
  \<^verbatim>\<open>self.dataclose[-ago]\<close>: the close \<open>ago\<close> bars before the current one, read
  from the bars delivered so far (\<open>hist\<close>, oldest first, the current bar last).
  The read is inside the delivered bars exactly when \<open>ago < length hist\<close>; the
  strategy only reads behind its guard, where that holds.
\<close>

definition dataclose :: "bar list \<Rightarrow> nat \<Rightarrow> real" where
  "dataclose hist ago = b_close (hist ! (length hist - 1 - ago))"

text \<open>
  \<^verbatim>\<open>FiveBarStrategy.next\<close>, lines 77 to 93. \<open>lookback\<close> is
  \<^verbatim>\<open>self.params.lookback\<close> (3 unless overridden, never negative), \<open>hist\<close> the
  bars delivered so far (\<^verbatim>\<open>len(self.datas[0])\<close> is its length) and \<open>possize\<close>
  is \<^verbatim>\<open>self.position.size\<close>; \<^verbatim>\<open>not self.position\<close> holds exactly when the
  size is zero. The result lists the broker calls made, in order. The log lines
  and the attribute \<^verbatim>\<open>self.order\<close> (written, never read) have no effect on
  the decision and are left out.
\<close>

definition strategy_next :: "nat \<Rightarrow> bar list \<Rightarrow> int \<Rightarrow> order list" where
  "strategy_next lookback hist possize =
     (if length hist \<le> lookback then []
      else
        let diff = dataclose hist 0 - dataclose hist lookback in
        if possize = 0 then
          (if diff > 0 then [Buy]
           else if diff < 0 then [Sell]
           else [])
        else
          (if (possize > 0 \<and> diff < 0) \<or> (possize < 0 \<and> diff > 0) then [Close]
           else []))"

text \<open>A bar whose close is \<open>c\<close> (the other price fields set to the close), for
  concrete runs.\<close>

definition flat_bar :: "int \<Rightarrow> real \<Rightarrow> bar" where
  "flat_bar t c =
     \<lparr>b_datetime = t, b_open = c, b_high = c, b_low = c, b_close = c, b_volume = 0\<rparr>"

section \<open>The equity sampler\<close>

text \<open>
  \<^verbatim>\<open>EquityCurveAnalyzer\<close>, lines 41 to 56: two parallel lists and the time
  of the last sample, all empty at construction.
\<close>

record analyzer =
  equity :: "real list"
  dates :: "int list"
  last_date :: "int option"

definition analyzer_init :: analyzer where
  "analyzer_init = \<lparr>equity = [], dates = [], last_date = None\<rparr>"

text \<open>\<^verbatim>\<open>dt.date()\<close>: the calendar day of an epoch second, as a day number
  (\<open>div\<close> on \<open>int\<close> rounds down, so days before 1970 are negative).\<close>

definition date_of :: "int \<Rightarrow> int" where
  "date_of dt = dt div 86400"

text \<open>
  \<^verbatim>\<open>EquityCurveAnalyzer.next\<close>, lines 48 to 53. \<open>dt\<close> is the current bar's
  time and \<open>v\<close> what \<^verbatim>\<open>self.strategy.broker.getvalue()\<close> returns at that bar.
\<close>

definition analyzer_next :: "int \<Rightarrow> real \<Rightarrow> analyzer \<Rightarrow> analyzer" where
  "analyzer_next dt v a =
     (if (case last_date a of None \<Rightarrow> True | Some ld \<Rightarrow> date_of dt \<noteq> date_of ld)
      then a\<lparr>equity := equity a @ [v], dates := dates a @ [dt], last_date := Some dt\<rparr>
      else a)"

text \<open>\<^verbatim>\<open>get_analysis\<close>, lines 55 and 56: the two lists; \<open>samples\<close> pairs them
  up, one (time, value) pair per sample.\<close>

definition get_analysis :: "analyzer \<Rightarrow> int list \<times> real list" where
  "get_analysis a = (dates a, equity a)"

definition samples :: "analyzer \<Rightarrow> (int \<times> real) list" where
  "samples a = zip (dates a) (equity a)"

text \<open>
  The engine calls \<^verbatim>\<open>next\<close> once per bar, in order. \<open>sample_bars\<close> does so
  from a new analyzer over a list that gives, for each bar, its time and the
  value the broker reports at it.
\<close>

definition sample_bars :: "(int \<times> real) list \<Rightarrow> analyzer" where
  "sample_bars xs = foldl (\<lambda>a x. analyzer_next (fst x) (snd x) a) analyzer_init xs"

section \<open>The engine loop, with the broker as a parameter\<close>

text \<open>
  The bar loop and the broker belong to the backtesting library the program
  imports; neither is part of the program's sources. The broker is therefore a
  parameter: what it reports as position size and as portfolio value at a
  price, and what an instruction does to it at a price.
\<close>

record 'b broker_ops =
  getposition :: "'b \<Rightarrow> int"
  getvalue :: "'b \<Rightarrow> real \<Rightarrow> real"
  submit :: "order \<Rightarrow> real \<Rightarrow> 'b \<Rightarrow> 'b"

text \<open>The state of a run: the broker, the sampler, the bars delivered so far
  and the log of fills (index of the bar of the request, side, price).\<close>

record 'b engine =
  broker :: 'b
  sampler :: analyzer
  history :: "bar list"
  fills :: "(nat \<times> order \<times> real) list"

text \<open>Modelled from the spec: the start of a run (section 4.5, step 1): the
  broker as given, a new sampler, no bar delivered, nothing filled.\<close>

definition engine_init :: "'b \<Rightarrow> 'b engine" where
  "engine_init b0 = \<lparr>broker = b0, sampler = analyzer_init, history = [], fills = []\<rparr>"

text \<open>
  Modelled from the spec: the body of the library's bar loop, which is not in
  the sources. Section 4.5, step 2: advance the feed one bar; invoke the equity
  sampler with the new current state; invoke the strategy, which may submit an
  order; if an order was submitted, immediately apply it through the broker
  using the current bar's close as the fill price. The sampler and the strategy
  are the program's own (\<open>analyzer_next\<close>, \<open>strategy_next\<close>).
\<close>

definition engine_step :: "'b broker_ops \<Rightarrow> nat \<Rightarrow> 'b engine \<Rightarrow> bar \<Rightarrow> 'b engine" where
  "engine_step B lookback e b =
     (let hist = history e @ [b];
          smp = analyzer_next (b_datetime b) (getvalue B (broker e) (b_close b)) (sampler e);
          orders = strategy_next lookback hist (getposition B (broker e));
          brk = foldl (\<lambda>s ord. submit B ord (b_close b) s) (broker e) orders
      in \<lparr>broker = brk, sampler = smp, history = hist,
          fills = fills e @ map (\<lambda>ord. (length (history e), ord, b_close b)) orders\<rparr>)"

text \<open>Modelled from the spec: the loop itself (section 4.5, steps 1 to 3): from
  a new sampler and the starting broker, one step per bar, in order.\<close>

definition engine_run :: "'b broker_ops \<Rightarrow> nat \<Rightarrow> 'b \<Rightarrow> bar list \<Rightarrow> 'b engine" where
  "engine_run B lookback b0 bars = foldl (engine_step B lookback) (engine_init b0) bars"

text \<open>Modelled from the spec: the final portfolio value reported at exhaustion
  (section 4.5, step 3), the broker's value at the last close. With no bar at
  all there is no close to value a position at; the price is then taken as 0.\<close>

definition final_value :: "'b broker_ops \<Rightarrow> 'b engine \<Rightarrow> real" where
  "final_value B e =
     getvalue B (broker e) (if history e = [] then 0 else b_close (last (history e)))"

section \<open>The broker of the spec\<close>

text \<open>
  Modelled from the spec: the broker's state (section 4.2), cash and position
  size; the library's broker is not in the sources. The average entry price of
  section 3 is never read by any operation and is left out.
\<close>

record account =
  cash :: real
  position_size :: int

text \<open>Modelled from the spec: the broker initialised with starting cash
  (section 4.5, step 1), flat.\<close>

definition new_account :: "real \<Rightarrow> account" where
  "new_account c = \<lparr>cash = c, position_size = 0\<rparr>"

text \<open>
  Modelled from the spec: \<^verbatim>\<open>apply_fill(order, price)\<close> of section 4.2. A buy
  from flat opens a long position of one unit; a buy while short closes the
  short (the optional flip is not taken); a sell is symmetric; a close zeroes
  the position, and is a no-op when already flat. Cash moves by minus the price
  times the signed change of the position (so a buy of one unit at 11 costs 11
  and closing a long unit at 9 returns 9, as in the scenario of section 8). The
  spec does not say what a buy while long or a sell while short does; here it
  adds a unit, and the strategy never does either.
\<close>

definition apply_fill :: "order \<Rightarrow> real \<Rightarrow> account \<Rightarrow> account" where
  "apply_fill ord price a =
     (let new_size =
            (case ord of
               Buy \<Rightarrow> (if position_size a < 0 then 0 else position_size a + 1)
             | Sell \<Rightarrow> (if position_size a > 0 then 0 else position_size a - 1)
             | Close \<Rightarrow> 0);
          delta = new_size - position_size a
      in \<lparr>cash = cash a - price * of_int delta, position_size = new_size\<rparr>)"

text \<open>Modelled from the spec: \<^verbatim>\<open>portfolio_value(current_price)\<close> of section
  4.2, cash plus position size times the current price.\<close>

definition portfolio_value :: "account \<Rightarrow> real \<Rightarrow> real" where
  "portfolio_value a price = cash a + of_int (position_size a) * price"

text \<open>Modelled from the spec: the broker of section 4.2 as the loop's broker
  parameter.\<close>

definition spec_broker :: "account broker_ops" where
  "spec_broker =
     \<lparr>getposition = position_size, getvalue = portfolio_value, submit = apply_fill\<rparr>"

text \<open>The five bars of the scenario of section 8, one per day.\<close>

definition scenario_bars :: "bar list" where
  "scenario_bars =
     [flat_bar 0 10, flat_bar 86400 10, flat_bar 172800 10, flat_bar 259200 11,
      flat_bar 345600 9]"

text \<open>Five (time, value) pairs over three days, two bars on each of the first two.\<close>

definition intraday_values :: "(int \<times> real) list" where
  "intraday_values = [(0, 100), (3600, 101), (86400, 102), (90000, 103), (172800, 104)]"

text \<open>Five daily bars that all close at 7.\<close>

definition steady_bars :: "bar list" where
  "steady_bars = [flat_bar 0 7, flat_bar 86400 7, flat_bar 172800 7, flat_bar 259200 7,
     flat_bar 345600 7]"

section \<open>Fetching the bars\<close>

text \<open>
  What \<^verbatim>\<open>response.json()\<close> can return: a decoded JSON value. An object is
  the list of its members (its keys are distinct).
\<close>

datatype json =
  JNull
  | JBool bool
  | JNum real
  | JStr string
  | JArr "json list"
  | JObj "(string \<times> json) list"

text \<open>The exceptions that can arise in \<^verbatim>\<open>ohlcv\<close>. The decode error of
  \<^verbatim>\<open>response.json()\<close> is a \<^verbatim>\<open>ValueError\<close> (and, in current versions of
  the HTTP library, a \<^verbatim>\<open>RequestException\<close> too).\<close>

datatype exn =
  RequestException
  | JSONDecodeError
  | ValueError
  | KeyError string
  | AttributeError
  | TypeError

text \<open>
  What the network does with the request of lines 16 to 18: the request fails
  or the status is an error (\<^verbatim>\<open>requests.get\<close> or \<^verbatim>\<open>raise_for_status\<close>
  raises), the body is not JSON, or the body decodes to a value. The arguments
  of \<^verbatim>\<open>ohlcv\<close> only select the URL and so the response.
\<close>

datatype response = RequestFailed | NotJson | Body json

text \<open>Python's truth value of a decoded JSON value (\<^verbatim>\<open>not data.get('t')\<close>).\<close>

definition truthy :: "json \<Rightarrow> bool" where
  "truthy j =
     (case j of
        JNull \<Rightarrow> False
      | JBool b \<Rightarrow> b
      | JNum x \<Rightarrow> x \<noteq> 0
      | JStr s \<Rightarrow> s \<noteq> []
      | JArr xs \<Rightarrow> xs \<noteq> []
      | JObj kvs \<Rightarrow> kvs \<noteq> [])"

text \<open>\<^verbatim>\<open>data.get(k)\<close>: \<^verbatim>\<open>None\<close> for a missing key; only a dict has the
  method.\<close>

definition dict_get :: "json \<Rightarrow> string \<Rightarrow> exn + json" where
  "dict_get data k =
     (case data of
        JObj kvs \<Rightarrow> Inr (case map_of kvs k of None \<Rightarrow> JNull | Some v \<Rightarrow> v)
      | _ \<Rightarrow> Inl AttributeError)"

text \<open>\<^verbatim>\<open>data[k]\<close> on a dict: a missing key raises \<^verbatim>\<open>KeyError\<close>.\<close>

definition getitem :: "json \<Rightarrow> string \<Rightarrow> exn + json" where
  "getitem data k =
     (case data of
        JObj kvs \<Rightarrow> (case map_of kvs k of None \<Rightarrow> Inl (KeyError k) | Some v \<Rightarrow> Inr v)
      | _ \<Rightarrow> Inl TypeError)"

text \<open>Sequencing: an exception in the first computation ends the second.\<close>

definition raising :: "exn + 'a \<Rightarrow> ('a \<Rightarrow> exn + 'b) \<Rightarrow> exn + 'b" where
  "raising r f = (case r of Inl e \<Rightarrow> Inl e | Inr x \<Rightarrow> f x)"

text \<open>A data frame: its named columns, in order. \<^verbatim>\<open>pd.DataFrame()\<close> is the
  frame with no column.\<close>

datatype 'c dataframe = DataFrame "(string \<times> 'c) list"

text \<open>
  The three calls into the table library, as parameters (the library is not
  part of the sources): \<^verbatim>\<open>pd.to_datetime(x, unit='s')\<close>,
  \<^verbatim>\<open>pd.Series(x, dtype=float)\<close> and \<^verbatim>\<open>pd.DataFrame({...})\<close> on named
  columns. Each returns a value or raises.
\<close>

record 'c pandas =
  to_datetime :: "json \<Rightarrow> exn + 'c"
  Series :: "json \<Rightarrow> exn + 'c"
  DataFrame_of :: "(string \<times> 'c) list \<Rightarrow> exn + 'c dataframe"

text \<open>The body of the \<^verbatim>\<open>try\<close> block of \<^verbatim>\<open>ohlcv\<close>, lines 16 to 31. The
  columns are built in the order of the dict display.\<close>

definition ohlcv_try :: "'c pandas \<Rightarrow> response \<Rightarrow> exn + 'c dataframe" where
  "ohlcv_try P resp =
     (case resp of
        RequestFailed \<Rightarrow> Inl RequestException
      | NotJson \<Rightarrow> Inl JSONDecodeError
      | Body data \<Rightarrow>
          raising (dict_get data ''t'') (\<lambda>t.
          raising (if \<not> truthy t then Inr True
                   else raising (getitem data ''s'') (\<lambda>s. Inr (s \<noteq> JStr ''ok''))) (\<lambda>invalid.
          if invalid then Inl ValueError
          else
            raising (raising (getitem data ''t'') (to_datetime P)) (\<lambda>c_t.
            raising (raising (getitem data ''o'') (Series P)) (\<lambda>c_o.
            raising (raising (getitem data ''h'') (Series P)) (\<lambda>c_h.
            raising (raising (getitem data ''l'') (Series P)) (\<lambda>c_l.
            raising (raising (getitem data ''c'') (Series P)) (\<lambda>c_c.
            raising (raising (getitem data ''v'') (Series P)) (\<lambda>c_v.
            DataFrame_of P
              [(''DateTime'', c_t), (''Open'', c_o), (''High'', c_h), (''Low'', c_l),
               (''Close'', c_c), (''Volume'', c_v)])))))))))"

text \<open>The two \<^verbatim>\<open>except\<close> clauses, lines 33 to 38: a \<^verbatim>\<open>RequestException\<close>
  or a \<^verbatim>\<open>ValueError\<close> is caught; anything else propagates.\<close>

definition caught :: "exn \<Rightarrow> bool" where
  "caught e = (e = RequestException \<or> e = JSONDecodeError \<or> e = ValueError)"

text \<open>\<^verbatim>\<open>ohlcv\<close>, lines 11 to 38.\<close>

definition ohlcv :: "'c pandas \<Rightarrow> response \<Rightarrow> exn + 'c dataframe" where
  "ohlcv P resp =
     (case ohlcv_try P resp of
        Inl e \<Rightarrow> (if caught e then Inr (DataFrame []) else Inl e)
      | Inr df \<Rightarrow> Inr df)"

text \<open>
  The parts of the backtesting library that \<^verbatim>\<open>run_backtest\<close> uses, as
  parameters (the library is not part of the sources): the data feed, that is
  the bars the library reads from the frame when the run starts up, or the
  exception it raises there, before the first bar; the broker's operations; and
  the broker as \<^verbatim>\<open>set_cash\<close> leaves it.
\<close>

record ('c, 'b) backtrader =
  feed_of :: "'c dataframe \<Rightarrow> exn + bar list"
  the_broker :: "'b broker_ops"
  broker_with_cash :: "real \<Rightarrow> 'b"

text \<open>
  \<^verbatim>\<open>run_backtest\<close>, lines 96 to 121: the fetch, the feed built from the
  fetched frame, and \<^verbatim>\<open>cerebro.run()\<close> with the strategy at its default
  lookback 3 and the broker's cash set to 101. Nothing between the fetch and the
  run inspects the frame, and no statement catches an exception, so an
  exception of the fetch or of the feed reaches the caller and ends the function
  there; otherwise the result is the state in which the bar loop (\<open>engine_run\<close>)
  ends. Printing and plotting are left out.
\<close>

definition run_backtest ::
  "'c pandas \<Rightarrow> ('c, 'b) backtrader \<Rightarrow> response \<Rightarrow> exn + 'b engine" where
  "run_backtest P L resp =
     raising (ohlcv P resp) (\<lambda>df.
     raising (feed_of L df) (\<lambda>bars.
     Inr (engine_run (the_broker L) 3 (broker_with_cash L 101) bars)))"

text \<open>
  A malformed or empty feed: the request failed, the body is not JSON, the
  body is not an object, it has no bars (\<^verbatim>\<open>'t'\<close> missing or empty), its
  status \<^verbatim>\<open>'s'\<close> is missing or is not \<^verbatim>\<open>'ok'\<close>, or one of the arrays
  \<^verbatim>\<open>'o'\<close>, \<^verbatim>\<open>'h'\<close>, \<^verbatim>\<open>'l'\<close>, \<^verbatim>\<open>'c'\<close>, \<^verbatim>\<open>'v'\<close> is missing.
\<close>

definition malformed_feed :: "response \<Rightarrow> bool" where
  "malformed_feed resp =
     (case resp of
        RequestFailed \<Rightarrow> True
      | NotJson \<Rightarrow> True
      | Body data \<Rightarrow>
          (case data of
             JObj kvs \<Rightarrow>
               (case map_of kvs ''t'' of None \<Rightarrow> True | Some t \<Rightarrow> \<not> truthy t)
               \<or> (case map_of kvs ''s'' of None \<Rightarrow> True | Some s \<Rightarrow> s \<noteq> JStr ''ok'')
               \<or> list_ex (\<lambda>k. map_of kvs k = None) [''o'', ''h'', ''l'', ''c'', ''v'']
           | _ \<Rightarrow> True))"

text \<open>
  An instance of the table library for concrete evaluations: an array of
  numbers converts to the list of its numbers, anything else is refused, and a
  frame needs columns of one length.
\<close>

definition numbers :: "json \<Rightarrow> exn + real list" where
  "numbers j =
     (case j of
        JArr xs \<Rightarrow>
          (if list_all (\<lambda>x. case x of JNum _ \<Rightarrow> True | _ \<Rightarrow> False) xs
           then Inr (map (\<lambda>x. case x of JNum r \<Rightarrow> r | _ \<Rightarrow> 0) xs)
           else Inl ValueError)
      | _ \<Rightarrow> Inl TypeError)"

definition plain_pandas :: "real list pandas" where
  "plain_pandas =
     \<lparr>to_datetime = numbers, Series = numbers,
      DataFrame_of = (\<lambda>cols.
        if list_all (\<lambda>c. length (snd c) = length (snd (hd cols))) cols
        then Inr (DataFrame cols) else Inl ValueError)\<rparr>"

text \<open>
  An instance of the backtesting library for concrete evaluations: the feed
  refuses a frame that lacks one of the six columns it was told to read and
  otherwise reads the rows off the columns; the broker is the broker of the
  spec.
\<close>

definition column :: "(string \<times> 'c) list \<Rightarrow> string \<Rightarrow> exn + 'c" where
  "column cols name = (case map_of cols name of None \<Rightarrow> Inl ValueError | Some c \<Rightarrow> Inr c)"

definition plain_feed :: "real list dataframe \<Rightarrow> exn + bar list" where
  "plain_feed df =
     (case df of DataFrame cols \<Rightarrow>
        raising (column cols ''DateTime'') (\<lambda>ts.
        raising (column cols ''Open'') (\<lambda>os.
        raising (column cols ''High'') (\<lambda>hs.
        raising (column cols ''Low'') (\<lambda>ls.
        raising (column cols ''Close'') (\<lambda>cs.
        raising (column cols ''Volume'') (\<lambda>vs.
        Inr (map (\<lambda>i. \<lparr>b_datetime = \<lfloor>ts ! i\<rfloor>, b_open = os ! i, b_high = hs ! i,
                         b_low = ls ! i, b_close = cs ! i, b_volume = vs ! i\<rparr>)
               [0..<length ts]))))))))"

definition plain_backtrader :: "(real list, account) backtrader" where
  "plain_backtrader =
     \<lparr>feed_of = plain_feed, the_broker = spec_broker, broker_with_cash = new_account\<rparr>"


definition no_status_response :: response where
  "no_status_response = Body (JObj [(''t'', JArr [JNum 1700000000])])"

definition no_volume_response :: response where
  "no_volume_response =
     Body (JObj [(''s'', JStr ''ok''), (''t'', JArr [JNum 1700000000]),
       (''o'', JArr [JNum 10]), (''h'', JArr [JNum 12]), (''l'', JArr [JNum 9]),
       (''c'', JArr [JNum 11])])"

definition one_bar_response :: response where
  "one_bar_response =
     Body (JObj [(''s'', JStr ''ok''), (''t'', JArr [JNum 1700000000]),
       (''o'', JArr [JNum 10]), (''h'', JArr [JNum 12]), (''l'', JArr [JNum 9]),
       (''c'', JArr [JNum 11]), (''v'', JArr [JNum 5])])"

section \<open>The strategy's transition table\<close>

lemma dataclose_current: "hist \<noteq> [] \<Longrightarrow> dataclose hist 0 = b_close (last hist)"
  by (simp add: dataclose_def last_conv_nth)

text \<open>
  C1. At a bar where the lookback guard is passed (more than \<open>lookback\<close> bars
  delivered), with \<open>diff\<close> the current close minus the close \<open>lookback\<close> bars
  earlier: flat and \<open>diff > 0\<close> submits a buy, flat and \<open>diff < 0\<close> a sell, flat
  and \<open>diff = 0\<close> nothing; long and \<open>diff < 0\<close> submits a close, long otherwise
  nothing; short and \<open>diff > 0\<close> submits a close, short otherwise nothing; and
  never more than one order in a bar.
\<close>

theorem strategy_transition_table:
  assumes guard: "lookback < length hist"
  defines "n \<equiv> length hist"
  defines "diff \<equiv> b_close (hist ! (n - 1)) - b_close (hist ! (n - 1 - lookback))"
  shows "(possize = 0 \<and> diff > 0 \<longrightarrow> strategy_next lookback hist possize = [Buy])
       \<and> (possize = 0 \<and> diff < 0 \<longrightarrow> strategy_next lookback hist possize = [Sell])
       \<and> (possize = 0 \<and> diff = 0 \<longrightarrow> strategy_next lookback hist possize = [])
       \<and> (possize > 0 \<and> diff < 0 \<longrightarrow> strategy_next lookback hist possize = [Close])
       \<and> (possize > 0 \<and> \<not> diff < 0 \<longrightarrow> strategy_next lookback hist possize = [])
       \<and> (possize < 0 \<and> diff > 0 \<longrightarrow> strategy_next lookback hist possize = [Close])
       \<and> (possize < 0 \<and> \<not> diff > 0 \<longrightarrow> strategy_next lookback hist possize = [])
       \<and> length (strategy_next lookback hist possize) \<le> 1"
  using guard by (simp add: strategy_next_def dataclose_def n_def diff_def Let_def)

theorem strategy_transition_table_witness:
  "(3::nat) < length [flat_bar 0 10, flat_bar 1 10, flat_bar 2 10, flat_bar 3 11]
   \<and> strategy_next 3 [flat_bar 0 10, flat_bar 1 10, flat_bar 2 10, flat_bar 3 11] 0 = [Buy]
   \<and> strategy_next 3 [flat_bar 0 10, flat_bar 1 10, flat_bar 2 10, flat_bar 3 9] 0 = [Sell]
   \<and> strategy_next 3 [flat_bar 0 10, flat_bar 1 11, flat_bar 2 12, flat_bar 3 10] 0 = []
   \<and> strategy_next 3 [flat_bar 0 10, flat_bar 1 10, flat_bar 2 10, flat_bar 3 9] 1 = [Close]
   \<and> strategy_next 3 [flat_bar 0 10, flat_bar 1 10, flat_bar 2 10, flat_bar 3 11] (- 1) = [Close]"
proof -
  have g: "(3::nat) < length [flat_bar 0 10, flat_bar 1 10, flat_bar 2 10, flat_bar 3 c]"
    for c by simp
  show ?thesis
    using strategy_transition_table [OF g [of 11], of 0]
      strategy_transition_table [OF g [of 9], of 0]
      strategy_transition_table [of 3 "[flat_bar 0 10, flat_bar 1 11, flat_bar 2 12, flat_bar 3 10]" 0]
      strategy_transition_table [OF g [of 9], of 1]
      strategy_transition_table [OF g [of 11], of "- 1"]
    by (simp add: flat_bar_def)
qed

section \<open>The equity sampler: one sample per calendar date\<close>

lemma sample_bars_Nil: "sample_bars [] = analyzer_init"
  by (simp add: sample_bars_def)

lemma sample_bars_snoc:
  "sample_bars (xs @ [x]) = analyzer_next (fst x) (snd x) (sample_bars xs)"
  by (simp add: sample_bars_def)

lemma sample_bars_lengths: "length (dates (sample_bars xs)) = length (equity (sample_bars xs))"
  by (induction xs rule: rev_induct)
     (simp_all add: sample_bars_Nil sample_bars_snoc analyzer_init_def analyzer_next_def)

lemma sample_bars_last_date:
  "xs \<noteq> [] \<Longrightarrow>
   \<exists>ld. last_date (sample_bars xs) = Some ld \<and> date_of ld = date_of (fst (last xs))"
  by (induction xs rule: rev_induct)
     (auto simp: sample_bars_Nil sample_bars_snoc analyzer_init_def analyzer_next_def
           split: option.splits)

lemma samples_Nil: "samples (sample_bars []) = []"
  by (simp add: samples_def sample_bars_Nil analyzer_init_def)

lemma samples_snoc:
  "samples (sample_bars (xs @ [x])) =
     (if xs = [] \<or> date_of (fst x) \<noteq> date_of (fst (last xs))
      then samples (sample_bars xs) @ [x] else samples (sample_bars xs))"
proof (cases "xs = []")
  case True
  then show ?thesis
    by (simp add: sample_bars_def analyzer_init_def analyzer_next_def samples_def)
next
  case False
  then obtain ld where ld: "last_date (sample_bars xs) = Some ld"
    "date_of ld = date_of (fst (last xs))"
    using sample_bars_last_date by blast
  with False show ?thesis
    by (simp add: sample_bars_snoc analyzer_next_def samples_def sample_bars_lengths)
qed

lemma sample_dates_cover:
  "(\<lambda>s. date_of (fst s)) ` set (samples (sample_bars xs)) = (\<lambda>s. date_of (fst s)) ` set xs"
proof (induction xs rule: rev_induct)
  case Nil
  then show ?case by (simp add: samples_Nil)
next
  case (snoc x xs)
  show ?case
  proof (cases "xs = [] \<or> date_of (fst x) \<noteq> date_of (fst (last xs))")
    case True
    then show ?thesis using snoc by (simp add: samples_snoc)
  next
    case False
    then have "last xs \<in> set xs" "date_of (fst x) = date_of (fst (last xs))"
      by simp_all
    then have "date_of (fst x) \<in> (\<lambda>s. date_of (fst s)) ` set xs"
      by (metis (mono_tags, lifting) image_eqI)
    with False snoc show ?thesis by (auto simp: samples_snoc)
  qed
qed

lemma find_snoc:
  "List.find P (xs @ [x]) =
     (case List.find P xs of None \<Rightarrow> (if P x then Some x else None) | Some y \<Rightarrow> Some y)"
  by (induction xs) simp_all

lemma sorted_le_last:
  "sorted (map f xs) \<Longrightarrow> y \<in> set xs \<Longrightarrow> f y \<le> f (last xs)"
  by (induction xs rule: rev_induct) (auto simp: sorted_append)

lemma sample_dates_distinct:
  "sorted (map (\<lambda>s. date_of (fst s)) xs) \<Longrightarrow>
   distinct (map (\<lambda>s. date_of (fst s)) (samples (sample_bars xs)))"
proof (induction xs rule: rev_induct)
  case Nil
  then show ?case by (simp add: samples_Nil)
next
  case (snoc x xs)
  from snoc.prems have srt: "sorted (map (\<lambda>s. date_of (fst s)) xs)"
    and le: "\<forall>y\<in>set xs. date_of (fst y) \<le> date_of (fst x)"
    by (auto simp: sorted_append)
  have IH: "distinct (map (\<lambda>s. date_of (fst s)) (samples (sample_bars xs)))"
    using snoc.IH srt by blast
  show ?case
  proof (cases "xs = [] \<or> date_of (fst x) \<noteq> date_of (fst (last xs))")
    case False
    then show ?thesis using IH by (simp add: samples_snoc)
  next
    case True
    have "date_of (fst x) \<notin> (\<lambda>s. date_of (fst s)) ` set xs"
    proof
      assume "date_of (fst x) \<in> (\<lambda>s. date_of (fst s)) ` set xs"
      then obtain y where y: "y \<in> set xs" "date_of (fst y) = date_of (fst x)"
        by auto
      then have ne: "xs \<noteq> []" by auto
      with True have neq: "date_of (fst x) \<noteq> date_of (fst (last xs))" by simp
      from srt y(1) have "date_of (fst y) \<le> date_of (fst (last xs))"
        by (rule sorted_le_last)
      moreover from ne le have "date_of (fst (last xs)) \<le> date_of (fst x)"
        by simp
      ultimately show False using y(2) neq by simp
    qed
    then have "date_of (fst x) \<notin> (\<lambda>s. date_of (fst s)) ` set (samples (sample_bars xs))"
      by (simp add: sample_dates_cover)
    with True IH show ?thesis by (simp add: samples_snoc)
  qed
qed

lemma sample_is_first_of_date:
  "sorted (map (\<lambda>s. date_of (fst s)) xs) \<Longrightarrow> s \<in> set (samples (sample_bars xs)) \<Longrightarrow>
   List.find (\<lambda>x. date_of (fst x) = date_of (fst s)) xs = Some s"
proof (induction xs rule: rev_induct)
  case Nil
  then show ?case by (simp add: samples_Nil)
next
  case (snoc x xs)
  from snoc.prems(1) have srt: "sorted (map (\<lambda>s. date_of (fst s)) xs)"
    by (auto simp: sorted_append)
  show ?case
  proof (cases "s \<in> set (samples (sample_bars xs))")
    case True
    then show ?thesis using snoc.IH [OF srt] by (simp add: find_snoc)
  next
    case False
    with snoc.prems(2) have new: "s = x"
      and cond: "xs = [] \<or> date_of (fst x) \<noteq> date_of (fst (last xs))"
      by (auto simp: samples_snoc split: if_splits)
    have "distinct (map (\<lambda>s. date_of (fst s)) (samples (sample_bars (xs @ [x]))))"
      using snoc.prems(1) by (rule sample_dates_distinct)
    with cond have "date_of (fst x) \<notin> (\<lambda>s. date_of (fst s)) ` set (samples (sample_bars xs))"
      by (simp add: samples_snoc)
    then have "date_of (fst x) \<notin> (\<lambda>s. date_of (fst s)) ` set xs"
      by (simp add: sample_dates_cover)
    then have "\<forall>y\<in>set xs. date_of (fst y) \<noteq> date_of (fst x)"
      by (metis (mono_tags, lifting) image_eqI)
    then have "List.find (\<lambda>y. date_of (fst y) = date_of (fst x)) xs = None"
      unfolding find_None_iff by blast
    then show ?thesis using new by (simp add: find_snoc)
  qed
qed

lemma date_of_mono: "s \<le> t \<Longrightarrow> date_of s \<le> date_of t"
  by (simp add: date_of_def zdiv_mono1)

lemma increasing_times_sorted_dates:
  "sorted_wrt (<) (map fst xs) \<Longrightarrow> sorted (map (\<lambda>s. date_of (fst s)) xs)"
  by (induction xs) (auto intro: date_of_mono less_imp_le)


text \<open>
  C4. Over a bar sequence with strictly increasing times (as section 3 of the spec
  requires of every bar sequence), the sampler records exactly one sample per
  calendar date that occurs in the sequence, and the sample of a date is the
  time and the broker value of the first bar of that date.
\<close>

theorem sampler_one_sample_per_date:
  assumes inc: "sorted_wrt (<) (map fst xs)"
  shows "length (dates (sample_bars xs)) = length (equity (sample_bars xs))
       \<and> distinct (map (\<lambda>s. date_of (fst s)) (samples (sample_bars xs)))
       \<and> (\<lambda>s. date_of (fst s)) ` set (samples (sample_bars xs)) = (\<lambda>x. date_of (fst x)) ` set xs
       \<and> length (samples (sample_bars xs)) = card ((\<lambda>x. date_of (fst x)) ` set xs)
       \<and> (\<forall>s\<in>set (samples (sample_bars xs)).
             List.find (\<lambda>x. date_of (fst x) = date_of (fst s)) xs = Some s)"
proof -
  have srt: "sorted (map (\<lambda>s. date_of (fst s)) xs)"
    using inc by (rule increasing_times_sorted_dates)
  have d: "distinct (map (\<lambda>s. date_of (fst s)) (samples (sample_bars xs)))"
    using srt by (rule sample_dates_distinct)
  have "card ((\<lambda>s. date_of (fst s)) ` set (samples (sample_bars xs))) =
        length (samples (sample_bars xs))"
    using distinct_card [OF d] by simp
  then have c: "length (samples (sample_bars xs)) = card ((\<lambda>x. date_of (fst x)) ` set xs)"
    by (simp add: sample_dates_cover)
  show ?thesis
    using d c sample_bars_lengths [of xs] sample_dates_cover [of xs]
      sample_is_first_of_date [OF srt]
    by blast
qed

theorem sampler_one_sample_per_date_witness:
  "sorted_wrt (<) (map fst intraday_values)
   \<and> samples (sample_bars intraday_values) = [(0, 100), (86400, 102), (172800, 104)]
   \<and> length (samples (sample_bars intraday_values))
       = card ((\<lambda>x. date_of (fst x)) ` set intraday_values)"
proof -
  have h: "sorted_wrt (<) (map fst intraday_values)"
    by (simp add: intraday_values_def)
  have v: "samples (sample_bars intraday_values) = [(0, 100), (86400, 102), (172800, 104)]"
    by (simp add: intraday_values_def samples_def sample_bars_def analyzer_next_def
        analyzer_init_def date_of_def)
  show ?thesis
    using h v sampler_one_sample_per_date [OF h] by simp
qed

section \<open>Runs of the engine loop\<close>

lemma engine_run_Nil: "engine_run B lookback b0 [] = engine_init b0"
  by (simp add: engine_run_def)

lemma engine_run_snoc:
  "engine_run B lookback b0 (bs @ [b]) = engine_step B lookback (engine_run B lookback b0 bs) b"
  by (simp add: engine_run_def)

lemma history_engine_step: "history (engine_step B lookback e b) = history e @ [b]"
  by (simp add: engine_step_def Let_def)

lemma history_engine_run: "history (engine_run B lookback b0 bars) = bars"
  by (induction bars rule: rev_induct)
     (simp_all add: engine_run_Nil engine_run_snoc history_engine_step engine_init_def)

lemma engine_run_take_Suc:
  "k < length bars \<Longrightarrow>
   engine_run B lookback b0 (take (Suc k) bars) =
     engine_step B lookback (engine_run B lookback b0 (take k bars)) (bars ! k)"
  by (simp add: take_Suc_conv_app_nth engine_run_snoc)

lemma broker_engine_step:
  "broker (engine_step B lookback e b) =
     foldl (\<lambda>s ord. submit B ord (b_close b) s) (broker e)
       (strategy_next lookback (history e @ [b]) (getposition B (broker e)))"
  by (simp add: engine_step_def Let_def)

lemma fills_engine_step:
  "fills (engine_step B lookback e b) =
     fills e @ map (\<lambda>ord. (length (history e), ord, b_close b))
       (strategy_next lookback (history e @ [b]) (getposition B (broker e)))"
  by (simp add: engine_step_def Let_def)

lemma sampler_engine_step:
  "sampler (engine_step B lookback e b) =
     analyzer_next (b_datetime b) (getvalue B (broker e) (b_close b)) (sampler e)"
  by (simp add: engine_step_def Let_def)

text \<open>A run in which the strategy stays silent at every bar leaves the broker
  as it started and the fill log empty.\<close>

lemma silent_run:
  "(\<And>k p. k \<le> length bars \<Longrightarrow> strategy_next lookback (take k bars) p = []) \<Longrightarrow>
   broker (engine_run B lookback b0 bars) = b0 \<and> fills (engine_run B lookback b0 bars) = []"
proof (induction bars rule: rev_induct)
  case Nil
  then show ?case by (simp add: engine_run_Nil engine_init_def)
next
  case (snoc b bs)
  have "strategy_next lookback (take k bs) p = []" if "k \<le> length bs" for k p
    using snoc.prems [of k p] that by simp
  then have IH: "broker (engine_run B lookback b0 bs) = b0"
    "fills (engine_run B lookback b0 bs) = []"
    using snoc.IH by blast+
  have "strategy_next lookback (bs @ [b]) p = []" for p
    using snoc.prems [of "length (bs @ [b])" p] by simp
  then show ?case
    by (simp add: engine_run_snoc broker_engine_step fills_engine_step history_engine_run IH)
qed

lemma strategy_next_guarded:
  "length hist \<le> lookback \<Longrightarrow> strategy_next lookback hist p = []"
  by (simp add: strategy_next_def)

lemma strategy_next_constant_closes:
  assumes "\<forall>b\<in>set hist. b_close b = c"
  shows "strategy_next lookback hist p = []"
proof (cases "length hist \<le> lookback")
  case True
  then show ?thesis by (rule strategy_next_guarded)
next
  case False
  then have "hist ! (length hist - 1 - 0) \<in> set hist"
    "hist ! (length hist - 1 - lookback) \<in> set hist"
    by simp_all
  with assms have "dataclose hist 0 = c" "dataclose hist lookback = c"
    by (simp_all add: dataclose_def)
  then show ?thesis by (simp add: strategy_next_def)
qed

text \<open>
  C3. Over a bar sequence of fewer than \<open>lookback + 1\<close> bars the strategy never
  submits an order: at every bar of the run, whatever the position, its decision
  is empty; and at every point of the run, whatever the broker, no fill has been
  logged and the broker is still as it started (so a position that starts flat
  stays flat).
\<close>

theorem short_feed_no_orders:
  assumes short: "length bars < lookback + 1"
  shows "(\<forall>k\<le>length bars. \<forall>p. strategy_next lookback (take k bars) p = [])
       \<and> (\<forall>k\<le>length bars.
             fills (engine_run B lookback b0 (take k bars)) = []
           \<and> broker (engine_run B lookback b0 (take k bars)) = b0)"
proof -
  have quiet: "strategy_next lookback (take k bars) p = []" for k p
    using short by (simp add: strategy_next_guarded)
  have "broker (engine_run B lookback b0 (take k bars)) = b0
      \<and> fills (engine_run B lookback b0 (take k bars)) = []" for k
    by (rule silent_run) (simp add: quiet min_def take_take)
  with quiet show ?thesis by blast
qed

theorem short_feed_no_orders_witness:
  "length (take 3 scenario_bars) < 3 + 1
   \<and> strategy_next 3 (take 3 scenario_bars) 0 = []
   \<and> fills (engine_run spec_broker 3 (new_account 100) (take 3 scenario_bars)) = []
   \<and> broker (engine_run spec_broker 3 (new_account 100) (take 3 scenario_bars)) = new_account 100"
proof -
  have h: "length (take 3 scenario_bars) < 3 + 1"
    by (simp add: scenario_bars_def)
  have l: "length (take 3 scenario_bars) = 3"
    by (simp add: scenario_bars_def)
  show ?thesis
    using h short_feed_no_orders [OF h, of spec_broker "new_account 100"] l
    by (metis order_refl take_all)
qed


lemma portfolio_value_flat: "portfolio_value (new_account c) price = c"
  by (simp add: portfolio_value_def new_account_def)

text \<open>
  C8. Over a bar sequence whose close is the same at every bar, the run submits
  no order: the strategy's decision is empty at every bar, whatever the position,
  so for any broker the fill log stays empty and the broker ends as it started;
  and if the starting broker is worth the starting cash \<open>c0\<close> at any price (as
  a flat account holding \<open>c0\<close> is), the final portfolio value is exactly \<open>c0\<close>.
\<close>

theorem constant_closes_no_orders:
  assumes const: "\<forall>b\<in>set bars. b_close b = c"
    and start: "\<forall>price. getvalue B b0 price = c0"
  shows "(\<forall>k\<le>length bars. \<forall>p. strategy_next lookback (take k bars) p = [])
       \<and> fills (engine_run B lookback b0 bars) = []
       \<and> broker (engine_run B lookback b0 bars) = b0
       \<and> final_value B (engine_run B lookback b0 bars) = c0"
proof -
  have quiet: "strategy_next lookback (take k bars) p = []" for k p
  proof (rule strategy_next_constant_closes)
    show "\<forall>b\<in>set (take k bars). b_close b = c"
      using const by (meson in_set_takeD)
  qed
  have still: "broker (engine_run B lookback b0 bars) = b0
      \<and> fills (engine_run B lookback b0 bars) = []"
    by (rule silent_run) (rule quiet)
  have "final_value B (engine_run B lookback b0 bars) = c0"
    using still start by (simp add: final_value_def)
  with quiet still show ?thesis by blast
qed

theorem constant_closes_no_orders_witness:
  "set (map b_close steady_bars) = {7}
   \<and> getvalue spec_broker (new_account 101) 7 = 101
   \<and> fills (engine_run spec_broker 3 (new_account 101) steady_bars) = []
   \<and> final_value spec_broker (engine_run spec_broker 3 (new_account 101) steady_bars) = 101"
proof -
  have h: "\<forall>b\<in>set steady_bars. b_close b = 7"
    by (simp add: steady_bars_def flat_bar_def)
  have v: "\<forall>price. getvalue spec_broker (new_account 101) price = 101"
    by (simp add: spec_broker_def portfolio_value_flat)
  have s: "set (map b_close steady_bars) = {7}"
    by (simp add: steady_bars_def flat_bar_def)
  show ?thesis
    using s v constant_closes_no_orders [OF h v, of 3] by simp
qed

section \<open>The scenario of section 8\<close>

lemma spec_broker_simps:
  "getposition spec_broker = position_size"
  "getvalue spec_broker = portfolio_value"
  "submit spec_broker = apply_fill"
  by (simp_all add: spec_broker_def)

lemma new_account_simps:
  "cash (new_account c) = c"
  "position_size (new_account c) = 0"
  by (simp_all add: new_account_def)

lemma quiet_prefix:
  "length bs \<le> lookback \<Longrightarrow>
   broker (engine_run B lookback b0 bs) = b0 \<and> fills (engine_run B lookback b0 bs) = []"
  by (rule silent_run) (simp add: strategy_next_guarded)

lemma five_closes:
  assumes "map b_close bars = [c0, c1, c2, c3, c4]"
  obtains b0 b1 b2 b3 b4 where "bars = [b0, b1, b2, b3, b4]"
    "b_close b0 = c0" "b_close b1 = c1" "b_close b2 = c2" "b_close b3 = c3" "b_close b4 = c4"
  using assms by (auto simp: map_eq_Cons_conv)

text \<open>
  C2. With lookback 3 and starting cash 100, over any five bars whose closes are
  10, 10, 10, 11, 9: nothing happens in the first three bars; the fourth bar
  (index 3) brings a buy filled at 11, after which cash is 89 and the position
  is one unit long; the fifth (index 4) brings a close filled at 9; these are
  the only fills, and the run ends flat with cash 98.
\<close>

theorem scenario_run:
  assumes closes: "map b_close bars = [10, 10, 10, 11, 9]"
  shows "(\<forall>k\<le>3. fills (engine_run spec_broker 3 (new_account 100) (take k bars)) = []
             \<and> broker (engine_run spec_broker 3 (new_account 100) (take k bars)) = new_account 100)
       \<and> fills (engine_run spec_broker 3 (new_account 100) (take 4 bars)) = [(3, Buy, 11)]
       \<and> broker (engine_run spec_broker 3 (new_account 100) (take 4 bars))
           = \<lparr>cash = 89, position_size = 1\<rparr>
       \<and> fills (engine_run spec_broker 3 (new_account 100) bars) = [(3, Buy, 11), (4, Close, 9)]
       \<and> cash (broker (engine_run spec_broker 3 (new_account 100) bars)) = 98
       \<and> position_size (broker (engine_run spec_broker 3 (new_account 100) bars)) = 0"
proof -
  from closes obtain b0 b1 b2 b3 b4 where bars: "bars = [b0, b1, b2, b3, b4]"
    and c: "b_close b0 = 10" "b_close b1 = 10" "b_close b2 = 10" "b_close b3 = 11"
      "b_close b4 = 9"
    by (rule five_closes)
  let ?run = "engine_run spec_broker 3 (new_account 100)"
  have early: "fills (?run (take k bars)) = [] \<and> broker (?run (take k bars)) = new_account 100"
    if "k \<le> 3" for k
    using quiet_prefix [of "take k bars" 3 spec_broker "new_account 100"] that by simp
  have three: "broker (?run [b0, b1, b2]) = new_account 100" "fills (?run [b0, b1, b2]) = []"
    using early [of 3] by (simp_all add: bars)
  have four_eq: "?run [b0, b1, b2, b3] = engine_step spec_broker 3 (?run [b0, b1, b2]) b3"
    using engine_run_snoc [of spec_broker 3 "new_account 100" "[b0, b1, b2]" b3] by simp
  have four: "broker (?run [b0, b1, b2, b3]) = \<lparr>cash = 89, position_size = 1\<rparr>"
    "fills (?run [b0, b1, b2, b3]) = [(3, Buy, 11)]"
    unfolding four_eq
    by (simp_all add: broker_engine_step fills_engine_step history_engine_run three c
        strategy_next_def dataclose_def spec_broker_simps new_account_simps apply_fill_def)
  have five_eq: "?run bars = engine_step spec_broker 3 (?run [b0, b1, b2, b3]) b4"
    using engine_run_snoc [of spec_broker 3 "new_account 100" "[b0, b1, b2, b3]" b4]
    by (simp add: bars)
  have five: "broker (?run bars) = \<lparr>cash = 98, position_size = 0\<rparr>"
    "fills (?run bars) = [(3, Buy, 11), (4, Close, 9)]"
    unfolding five_eq
    by (simp_all add: broker_engine_step fills_engine_step history_engine_run four c
        strategy_next_def dataclose_def spec_broker_simps apply_fill_def)
  have t4: "take 4 bars = [b0, b1, b2, b3]"
    by (simp add: bars)
  show ?thesis
    using early four five by (simp add: t4)
qed

theorem scenario_run_witness:
  "map b_close scenario_bars = [10, 10, 10, 11, 9]
   \<and> fills (engine_run spec_broker 3 (new_account 100) scenario_bars)
       = [(3, Buy, 11), (4, Close, 9)]
   \<and> broker (engine_run spec_broker 3 (new_account 100) scenario_bars)
       = \<lparr>cash = 98, position_size = 0\<rparr>"
proof -
  have h: "map b_close scenario_bars = [10, 10, 10, 11, 9]"
    by (simp add: scenario_bars_def flat_bar_def)
  show ?thesis
    using h scenario_run [OF h] by simp
qed


section \<open>Fills and the portfolio value\<close>

lemma apply_fill_value:
  "portfolio_value (apply_fill ord price a) price = portfolio_value a price"
  by (simp add: apply_fill_def portfolio_value_def Let_def algebra_simps)

lemma apply_fills_value:
  "portfolio_value (foldl (\<lambda>s ord. apply_fill ord price s) a ords) price =
     portfolio_value a price"
  by (induction ords arbitrary: a) (simp_all add: apply_fill_value)

text \<open>
  C5. With the broker of the spec, at every bar of a run: the value handed to
  the sampler, and so the value of the sample if one is recorded at that bar, is
  cash plus position size times that bar's close, computed from the broker's
  state at that moment; and after the bar's fill the portfolio value at that
  close is again cash plus position size times the close of the new state, and
  equals the value before the fill.
\<close>

theorem portfolio_value_recomputed:
  assumes k: "k < length bars"
  shows "(sampler (engine_run spec_broker lookback a0 (take (Suc k) bars))
            = sampler (engine_run spec_broker lookback a0 (take k bars))
          \<or> samples (sampler (engine_run spec_broker lookback a0 (take (Suc k) bars)))
            = samples (sampler (engine_run spec_broker lookback a0 (take k bars)))
              @ [(b_datetime (bars ! k),
                  cash (broker (engine_run spec_broker lookback a0 (take k bars)))
                  + of_int (position_size (broker (engine_run spec_broker lookback a0 (take k bars))))
                    * b_close (bars ! k))])
       \<and> getvalue spec_broker (broker (engine_run spec_broker lookback a0 (take (Suc k) bars)))
             (b_close (bars ! k))
           = cash (broker (engine_run spec_broker lookback a0 (take (Suc k) bars)))
             + of_int (position_size (broker (engine_run spec_broker lookback a0 (take (Suc k) bars))))
               * b_close (bars ! k)
       \<and> getvalue spec_broker (broker (engine_run spec_broker lookback a0 (take (Suc k) bars)))
             (b_close (bars ! k))
           = getvalue spec_broker (broker (engine_run spec_broker lookback a0 (take k bars)))
             (b_close (bars ! k))"
proof -
  let ?e = "engine_run spec_broker lookback a0 (take k bars)"
  let ?e' = "engine_run spec_broker lookback a0 (take (Suc k) bars)"
  have step: "?e' = engine_step spec_broker lookback ?e (bars ! k)"
    using k by (rule engine_run_take_Suc)
  have len: "length (dates (sampler e)) = length (equity (sampler e))"
    if "e = engine_run spec_broker lookback a0 bs" for e bs
    unfolding that
    by (induction bs rule: rev_induct)
       (simp_all add: engine_run_Nil engine_run_snoc engine_init_def analyzer_init_def
          sampler_engine_step analyzer_next_def)
  have smp: "sampler ?e' = sampler ?e
      \<or> samples (sampler ?e') = samples (sampler ?e)
          @ [(b_datetime (bars ! k),
              cash (broker ?e) + of_int (position_size (broker ?e)) * b_close (bars ! k))]"
    unfolding step
    using len [of ?e "take k bars"]
    by (simp add: sampler_engine_step analyzer_next_def samples_def spec_broker_simps
        portfolio_value_def)
  have val: "getvalue spec_broker (broker ?e') (b_close (bars ! k))
      = getvalue spec_broker (broker ?e) (b_close (bars ! k))"
    unfolding step
    by (simp add: broker_engine_step spec_broker_simps apply_fills_value)
  show ?thesis
    using smp val by (simp add: spec_broker_simps portfolio_value_def)
qed

theorem portfolio_value_recomputed_witness:
  "(3::nat) < length scenario_bars
   \<and> getvalue spec_broker
       (broker (engine_run spec_broker 3 (new_account 100) (take (Suc 3) scenario_bars))) 11 = 100
   \<and> samples (sampler (engine_run spec_broker 3 (new_account 100) (take (Suc 3) scenario_bars)))
       = samples (sampler (engine_run spec_broker 3 (new_account 100) (take 3 scenario_bars)))
         @ [(259200, 100)]"
proof -
  have h: "(3::nat) < length scenario_bars"
    by (simp add: scenario_bars_def)
  have q: "broker (engine_run spec_broker 3 (new_account 100) (take 3 scenario_bars))
      = new_account 100"
    using quiet_prefix [of "take 3 scenario_bars" 3 spec_broker "new_account 100"] by simp
  have b: "scenario_bars ! 3 = flat_bar 259200 11"
    by (simp add: scenario_bars_def)
  have t: "take 3 scenario_bars = [flat_bar 0 10, flat_bar 86400 10, flat_bar 172800 10]"
    by (simp add: scenario_bars_def)
  have s: "sampler (engine_run spec_broker 3 (new_account 100) (take 3 scenario_bars))
      = \<lparr>equity = [100, 100, 100], dates = [0, 86400, 172800], last_date = Some 172800\<rparr>"
    unfolding t
    by (simp add: engine_run_def engine_init_def sampler_engine_step broker_engine_step
        history_engine_step strategy_next_def analyzer_next_def analyzer_init_def date_of_def
        spec_broker_simps portfolio_value_def new_account_simps flat_bar_def)
  have d: "sampler (engine_run spec_broker 3 (new_account 100) (take (Suc 3) scenario_bars))
      \<noteq> sampler (engine_run spec_broker 3 (new_account 100) (take 3 scenario_bars))"
    unfolding engine_run_take_Suc [OF h]
    by (simp add: sampler_engine_step s b analyzer_next_def date_of_def flat_bar_def)
  show ?thesis
    using h d portfolio_value_recomputed [OF h, of 3 "new_account 100"]
    by (simp add: q b new_account_simps spec_broker_simps portfolio_value_def flat_bar_def)
qed

section \<open>A malformed or empty feed\<close>

lemma ohlcv_try_object:
  "ohlcv_try P (Body (JObj kvs)) =
     (case map_of kvs ''t'' of
        None \<Rightarrow> Inl ValueError
      | Some t \<Rightarrow>
          if \<not> truthy t then Inl ValueError
          else (case map_of kvs ''s'' of
                  None \<Rightarrow> Inl (KeyError ''s'')
                | Some s \<Rightarrow>
                    if s \<noteq> JStr ''ok'' then Inl ValueError
                    else
                      raising (to_datetime P t) (\<lambda>c_t.
                      raising (raising (getitem (JObj kvs) ''o'') (Series P)) (\<lambda>c_o.
                      raising (raising (getitem (JObj kvs) ''h'') (Series P)) (\<lambda>c_h.
                      raising (raising (getitem (JObj kvs) ''l'') (Series P)) (\<lambda>c_l.
                      raising (raising (getitem (JObj kvs) ''c'') (Series P)) (\<lambda>c_c.
                      raising (raising (getitem (JObj kvs) ''v'') (Series P)) (\<lambda>c_v.
                      DataFrame_of P
                        [(''DateTime'', c_t), (''Open'', c_o), (''High'', c_h), (''Low'', c_l),
                         (''Close'', c_c), (''Volume'', c_v)]))))))))"
  by (simp add: ohlcv_try_def dict_get_def getitem_def raising_def truthy_def
      split: option.split)








text \<open>A complete answer is not refused: the frame is built, the feed reads its
  one bar and the loop runs over it.\<close>

lemma complete_feed_runs:
  "\<not> malformed_feed one_bar_response
   \<and> run_backtest plain_pandas plain_backtrader one_bar_response
       = Inr (engine_run spec_broker 3 (new_account 101)
           [\<lparr>b_datetime = 1700000000, b_open = 10, b_high = 12, b_low = 9, b_close = 11,
             b_volume = 5\<rparr>])"
proof -
  have m: "\<not> malformed_feed one_bar_response"
    by (simp add: one_bar_response_def malformed_feed_def truthy_def)
  have n: "numbers (JArr [JNum x]) = Inr [x]" for x
    by (simp add: numbers_def)
  have t: "ohlcv_try plain_pandas one_bar_response
      = Inr (DataFrame [(''DateTime'', [1700000000]), (''Open'', [10]), (''High'', [12]),
          (''Low'', [9]), (''Close'', [11]), (''Volume'', [5])])"
    unfolding one_bar_response_def ohlcv_try_object
    by (simp add: truthy_def getitem_def plain_pandas_def n raising_def)
  have f: "plain_feed (DataFrame [(''DateTime'', [1700000000]), (''Open'', [10]), (''High'', [12]),
          (''Low'', [9]), (''Close'', [11]), (''Volume'', [5])])
      = Inr [\<lparr>b_datetime = 1700000000, b_open = 10, b_high = 12, b_low = 9, b_close = 11,
             b_volume = 5\<rparr>]"
    by (simp add: plain_feed_def column_def raising_def)
  show ?thesis
    using m by (simp add: run_backtest_def ohlcv_def t raising_def plain_backtrader_def f)
qed

text \<open>
  C10 fails on the code: an answer that carries bars but no status makes
  \<^verbatim>\<open>data['s']\<close> raise \<^verbatim>\<open>KeyError\<close>, which neither \<^verbatim>\<open>except\<close> clause
  catches, whatever the table library does; so does an answer without the
  volume array.
\<close>

theorem ohlcv_key_error_escapes:
  "ohlcv P no_status_response = Inl (KeyError ''s'')
   \<and> ohlcv plain_pandas no_volume_response = Inl (KeyError ''v'')"
proof -
  have s: "ohlcv_try P no_status_response = Inl (KeyError ''s'')"
    unfolding no_status_response_def ohlcv_try_object by (simp add: truthy_def)
  have n: "numbers (JArr [JNum x]) = Inr [x]" for x
    by (simp add: numbers_def)
  have v: "ohlcv_try plain_pandas no_volume_response = Inl (KeyError ''v'')"
    unfolding no_volume_response_def ohlcv_try_object
    by (simp add: truthy_def getitem_def plain_pandas_def n raising_def)
  show ?thesis
    by (simp add: ohlcv_def s v caught_def)
qed

end
